theory Spec2Isabelle
  imports Main "HOL-Library.Product_Lexorder"
begin

section \<open>Versions and pointers to versions\<close>

text \<open>
  constraint.go uses the type \<open>Version\<close> through pointers (\<open>*Version\<close>) and through
  its methods \<open>Compare\<close>, \<open>Equal\<close>, \<open>LessThan\<close>, \<open>GreaterThan\<close> and \<open>String\<close>.
  The type itself is declared in another file of the package. It is taken here as a type
  parameter \<open>'v\<close> carrying a total order; a pointer that may be nil is an \<open>'v option\<close>.
\<close>

text \<open>Modelled from the spec: the Version collaborator's three-way comparison
  ("total ordering via three-way comparison"), with results -1, 0 and 1.\<close>
definition Compare :: "'v::linorder \<Rightarrow> 'v \<Rightarrow> int" where
  "Compare a b = (if a < b then - 1 else if a = b then 0 else 1)"

text \<open>Modelled from the spec: the Version collaborator's equality, one of its "dedicated
  equality/less-than/greater-than conveniences".\<close>
definition Equal :: "'v::linorder \<Rightarrow> 'v \<Rightarrow> bool" where
  "Equal a b = (Compare a b = 0)"

text \<open>Modelled from the spec: the Version collaborator's less-than.\<close>
definition LessThan :: "'v::linorder \<Rightarrow> 'v \<Rightarrow> bool" where
  "LessThan a b = (Compare a b < 0)"

text \<open>Modelled from the spec: the Version collaborator's greater-than.\<close>
definition GreaterThan :: "'v::linorder \<Rightarrow> 'v \<Rightarrow> bool" where
  "GreaterThan a b = (Compare a b > 0)"

text \<open>A Go panic: a nil pointer dereference, or \<open>panic(msg)\<close>.\<close>
datatype panic = NilDereference | Panic string

text \<open>Modelled from the spec: the Version collaborator's \<open>Equal\<close> called through pointers.
  Comparing reads the fields of the receiver and of the argument, so a nil pointer on
  either side is dereferenced.\<close>
fun ptr_Equal :: "'v::linorder option \<Rightarrow> 'v option \<Rightarrow> panic + bool" where
  "ptr_Equal (Some a) (Some b) = Inr (Equal a b)"
| "ptr_Equal _ _ = Inl NilDereference"

section \<open>Errors and constraints\<close>

text \<open>
  An \<open>error\<close> value of Go: \<open>fmt.Errorf(format, args...)\<close> keeps the format string and the
  versions it is applied to (their rendering belongs to \<open>Version.String\<close>); \<open>noneErr\<close> is the
  package-level value made by \<open>errors.New\<close>. The nil error is \<open>None\<close> of \<open>'v error option\<close>.
  \<open>versionErr v x\<close> stands for the error of a version \<open>x\<close>, as a constraint, rejecting \<open>v\<close>;
  that method is outside constraint.go.
\<close>
datatype 'v error =
    Errorf string "'v list"
  | noneErr
  | versionErr 'v 'v

record 'v rangeConstraint =
  rc_min :: "'v option"
  rc_max :: "'v option"
  includeMin :: bool
  includeMax :: bool
  excl :: "'v list"

text \<open>
  The interface \<open>Constraint\<close> is closed (\<open>_private\<close>): its implementations are \<open>any\<close>,
  \<open>none\<close>, \<open>*Version\<close>, \<open>rangeConstraint\<close> and \<open>unionConstraint\<close>.
\<close>
datatype 'v Constraint =
    AnyC
  | NoneC
  | VersionC 'v
  | RangeC "'v rangeConstraint"
  | UnionC "'v Constraint list"

section \<open>Admits\<close>

definition admits_min :: "'v::linorder rangeConstraint \<Rightarrow> 'v \<Rightarrow> 'v error option" where
  "admits_min rc v =
     (case rc_min rc of
        None \<Rightarrow> None
      | Some m \<Rightarrow>
          (let cmp = Compare m v in
           if includeMin rc
           then (if cmp = 1 then Some (Errorf ''%s is less than %s'' [v, m]) else None)
           else (if cmp \<noteq> - 1 then Some (Errorf ''%s is less than or equal to %s'' [v, m])
                 else None)))"

definition admits_max :: "'v::linorder rangeConstraint \<Rightarrow> 'v \<Rightarrow> 'v error option" where
  "admits_max rc v =
     (case rc_max rc of
        None \<Rightarrow> None
      | Some m \<Rightarrow>
          (let cmp = Compare m v in
           if includeMax rc
           then (if cmp = - 1 then Some (Errorf ''%s is greater than %s'' [v, m]) else None)
           else (if cmp \<noteq> 1 then Some (Errorf ''%s is greater than or equal to %s'' [v, m])
                 else None)))"

fun admits_excl :: "'v::linorder list \<Rightarrow> 'v \<Rightarrow> 'v error option" where
  "admits_excl [] v = None"
| "admits_excl (e # es) v =
     (if Equal e v then Some (Errorf ''Version %s is specifically disallowed.'' [v])
      else admits_excl es v)"

text \<open>\<open>rangeConstraint.Admits\<close>: the lower bound, then the upper bound, then the
  exclusion list; the first failure is returned.\<close>
definition rc_Admits :: "'v::linorder rangeConstraint \<Rightarrow> 'v \<Rightarrow> 'v error option" where
  "rc_Admits rc v =
     (case admits_min rc v of
        Some e \<Rightarrow> Some e
      | None \<Rightarrow>
          (case admits_max rc v of
             Some e \<Rightarrow> Some e
           | None \<Rightarrow> admits_excl (excl rc) v))"

text \<open>Modelled from the spec: \<open>Admits\<close> of \<open>*Version\<close>, which is not in constraint.go
  ("Admits delegates to equality").\<close>
definition Version_Admits :: "'v::linorder \<Rightarrow> 'v \<Rightarrow> 'v error option" where
  "Version_Admits x v = (if Equal x v then None else Some (versionErr v x))"

text \<open>
  \<open>Admits\<close> by receiver. \<open>uc_Admits uc v err\<close> is the loop of \<open>unionConstraint.Admits\<close> over
  the members still to visit, \<open>err\<close> being the local variable of that name.
\<close>
fun Admits :: "'v::linorder Constraint \<Rightarrow> 'v \<Rightarrow> 'v error option"
  and uc_Admits :: "'v Constraint list \<Rightarrow> 'v \<Rightarrow> 'v error option \<Rightarrow> 'v error option" where
  "Admits AnyC v = None"
| "Admits NoneC v = Some noneErr"
| "Admits (VersionC x) v = Version_Admits x v"
| "Admits (RangeC rc) v = rc_Admits rc v"
| "Admits (UnionC uc) v = uc_Admits uc v None"
| "uc_Admits [] v err = err"
| "uc_Admits (c # cs) v err =
     (case Admits c v of
        None \<Rightarrow> None
      | Some e \<Rightarrow> uc_Admits cs v (Some e))"

section \<open>The predicates and the n-ary union\<close>

definition IsNone :: "'v Constraint \<Rightarrow> bool" where
  "IsNone c = (case c of NoneC \<Rightarrow> True | _ \<Rightarrow> False)"

text \<open>\<open>IsAny\<close> asserts the type \<open>none\<close>, as the source does.\<close>
definition IsAny :: "'v Constraint \<Rightarrow> bool" where
  "IsAny c = (case c of NoneC \<Rightarrow> True | _ \<Rightarrow> False)"

fun first_any :: "'v Constraint list \<Rightarrow> 'v Constraint option" where
  "first_any [] = None"
| "first_any (c # cs) = (case c of AnyC \<Rightarrow> Some c | _ \<Rightarrow> first_any cs)"

text \<open>The n-ary \<open>Union\<close> of the source.\<close>
definition Union_c :: "'v Constraint list \<Rightarrow> panic + 'v Constraint" where
  "Union_c cg =
     (case cg of
        [] \<Rightarrow> Inr NoneC
      | [c] \<Rightarrow> Inr c
      | _ \<Rightarrow> (case first_any cg of
                Some c \<Rightarrow> Inr c
              | None \<Rightarrow> Inl (Panic ''unfinished'')))"

section \<open>Intersect\<close>

definition dup :: "'v rangeConstraint \<Rightarrow> 'v rangeConstraint" where
  "dup rc =
     \<lparr> rc_min = rc_min rc, rc_max = rc_max rc,
       includeMin = includeMin rc, includeMax = includeMax rc,
       excl = (if length (excl rc) > 0 then excl rc else []) \<rparr>"

text \<open>The first block of the \<open>rangeConstraint\<close> case: the lower bound of \<open>oc\<close> merged
  into \<open>nr\<close>.\<close>
definition merge_min :: "'v::linorder rangeConstraint \<Rightarrow> 'v rangeConstraint \<Rightarrow> 'v rangeConstraint" where
  "merge_min nr oc =
     (case rc_min oc of
        None \<Rightarrow> nr
      | Some om \<Rightarrow>
          (case rc_min nr of
             None \<Rightarrow> nr\<lparr>rc_min := rc_min oc, includeMin := includeMin oc\<rparr>
           | Some nm \<Rightarrow>
               if LessThan nm om then nr\<lparr>rc_min := rc_min oc, includeMin := includeMin oc\<rparr>
               else if Equal om nm \<and> \<not> includeMin oc then nr\<lparr>includeMin := False\<rparr>
               else nr))"

text \<open>The second block: the upper bound of \<open>oc\<close> merged into \<open>nr\<close>.\<close>
definition merge_max :: "'v::linorder rangeConstraint \<Rightarrow> 'v rangeConstraint \<Rightarrow> 'v rangeConstraint" where
  "merge_max nr oc =
     (case rc_max oc of
        None \<Rightarrow> nr
      | Some om \<Rightarrow>
          (case rc_max nr of
             None \<Rightarrow> nr\<lparr>rc_max := rc_max oc, includeMax := includeMax oc\<rparr>
           | Some nm \<Rightarrow>
               if GreaterThan nm om then nr\<lparr>rc_max := rc_max oc, includeMax := includeMax oc\<rparr>
               else if Equal om nm \<and> \<not> includeMax oc then nr\<lparr>includeMax := False\<rparr>
               else nr))"

text \<open>\<open>nr\<close> after both blocks.\<close>
definition merged :: "'v::linorder rangeConstraint \<Rightarrow> 'v rangeConstraint \<Rightarrow> 'v rangeConstraint" where
  "merged rc oc = merge_max (merge_min (dup rc) oc) oc"

text \<open>
  The end of the \<open>rangeConstraint\<close> case, from \<open>if nr.min == nil && nr.max == nil\<close> on.
  \<open>nr.min.Equal(nr.max)\<close> is reached with whatever pointers \<open>nr\<close> holds. When it returns,
  both are present, so the nil tests of the last condition hold.
\<close>
definition validate :: "'v::linorder rangeConstraint \<Rightarrow> panic + 'v Constraint" where
  "validate nr =
     (if rc_min nr = None \<and> rc_max nr = None then Inr (RangeC nr)
      else
        (case ptr_Equal (rc_min nr) (rc_max nr) of
           Inl p \<Rightarrow> Inl p
         | Inr eq \<Rightarrow>
             (case (rc_min nr, rc_max nr) of
                (Some lo, Some hi) \<Rightarrow>
                  if eq then (if includeMin nr \<and> includeMax nr then Inr (VersionC lo) else Inr NoneC)
                  else if GreaterThan lo hi then Inr NoneC
                  else Inr (RangeC nr)
              | _ \<Rightarrow> Inl NilDereference)))"

definition rc_Intersect_rc :: "'v::linorder rangeConstraint \<Rightarrow> 'v rangeConstraint \<Rightarrow> panic + 'v Constraint" where
  "rc_Intersect_rc rc oc = validate (merged rc oc)"

text \<open>Modelled from the spec: \<open>Intersect\<close> of \<open>*Version\<close>, which is not in constraint.go
  ("Intersect with anything returns the Exact constraint if the other operand admits that
  version, else Empty").\<close>
definition Version_Intersect :: "'v::linorder \<Rightarrow> 'v Constraint \<Rightarrow> panic + 'v Constraint" where
  "Version_Intersect x c = (if Admits c x = None then Inr (VersionC x) else Inr NoneC)"

text \<open>
  \<open>Intersect\<close> by receiver. \<open>uc_outer\<close> and \<open>uc_inner\<close> are the two nested loops of
  \<open>unionConstraint.Intersect\<close>; their last argument is \<open>newc\<close>. A panic of a pairwise
  intersection ends the whole call.

  In the \<open>*Version\<close> case of \<open>rangeConstraint.Intersect\<close> the condition tests the method
  value \<open>rc.Admits\<close>, which is never nil, so the branch returning \<open>None()\<close> is always taken.
\<close>
function Intersect :: "'v::linorder Constraint \<Rightarrow> 'v Constraint \<Rightarrow> panic + 'v Constraint"
  and uc_outer :: "'v Constraint list \<Rightarrow> 'v Constraint list \<Rightarrow> 'v Constraint list \<Rightarrow> panic + 'v Constraint list"
  and uc_inner :: "'v Constraint \<Rightarrow> 'v Constraint list \<Rightarrow> 'v Constraint list \<Rightarrow> panic + 'v Constraint list" where
  "Intersect AnyC c = Inr c"
| "Intersect NoneC c = Inr NoneC"
| "Intersect (VersionC x) c = Version_Intersect x c"
| "Intersect (RangeC rc) c =
     (case c of
        AnyC \<Rightarrow> Inr (RangeC rc)
      | NoneC \<Rightarrow> Inr NoneC
      | UnionC oc \<Rightarrow> Intersect (UnionC oc) (RangeC rc)
      | VersionC x \<Rightarrow> Inr NoneC
      | RangeC oc \<Rightarrow> rc_Intersect_rc rc oc)"
| "Intersect (UnionC uc) c2 =
     (case c2 of
        NoneC \<Rightarrow> Inr NoneC
      | AnyC \<Rightarrow> Inr (UnionC uc)
      | VersionC x \<Rightarrow> Inr c2
      | RangeC oc \<Rightarrow>
          (case uc_outer uc [c2] [] of Inl p \<Rightarrow> Inl p | Inr newc \<Rightarrow> Union_c newc)
      | UnionC other \<Rightarrow>
          (case uc_outer uc other [] of Inl p \<Rightarrow> Inl p | Inr newc \<Rightarrow> Union_c newc))"
| "uc_outer [] other newc = Inr newc"
| "uc_outer (c # cs) other newc =
     (case uc_inner c other newc of
        Inl p \<Rightarrow> Inl p
      | Inr newc' \<Rightarrow> uc_outer cs other newc')"
| "uc_inner c [] newc = Inr newc"
| "uc_inner c (oc # ocs) newc =
     (case Intersect c oc of
        Inl p \<Rightarrow> Inl p
      | Inr i \<Rightarrow> uc_inner c ocs (if \<not> IsNone i then newc @ [i] else newc))"
  by pat_completeness auto

text \<open>
  Every call keeps the sum of the sizes of the two operands or lowers it; where it is
  kept (the delegation of a range to a union, the entry of a union into its loops) the
  call moves to a later stage.
\<close>
termination
proof (relation "measure (\<lambda>x. case x of
      Inl (c1, c2) \<Rightarrow> 3 * (size c1 + size c2) +
         (case (c1, c2) of (RangeC _, UnionC _) \<Rightarrow> 2 | _ \<Rightarrow> 1)
    | Inr (Inl (uc, other, newc)) \<Rightarrow> 3 * (size_list size uc + size_list size other)
    | Inr (Inr (c, other, newc)) \<Rightarrow> 3 * (size c + size_list size other))", goal_cases)
  case 1 show ?case by simp
next
  case (2 rc c oc) then show ?case by simp
next
  case (3 uc c2 oc) then show ?case by simp
next
  case (4 uc c2 other) then show ?case by simp
next
  case (5 c cs other newc) then show ?case by simp
next
  case (6 c cs other newc x) then show ?case by simp
next
  case (7 c oc ocs newc) then show ?case by (simp split: Constraint.splits)
next
  case (8 c oc ocs newc x) then show ?case by simp
qed

section \<open>The n-ary intersection\<close>

fun first_none_or_version :: "'v Constraint list \<Rightarrow> 'v Constraint option" where
  "first_none_or_version [] = None"
| "first_none_or_version (c # cs) =
     (case c of
        NoneC \<Rightarrow> Some c
      | VersionC x \<Rightarrow> Some c
      | _ \<Rightarrow> first_none_or_version cs)"

text \<open>The last loop of \<open>Intersection\<close>: \<open>head\<close> intersected with each member of the tail
  in turn.\<close>
fun intersect_tail :: "'v::linorder Constraint \<Rightarrow> 'v Constraint list \<Rightarrow> panic + 'v Constraint" where
  "intersect_tail head [] = Inr head"
| "intersect_tail head (c # tail) =
     (case Intersect head c of
        Inl p \<Rightarrow> Inl p
      | Inr head' \<Rightarrow> intersect_tail head' tail)"

definition Intersection :: "'v::linorder Constraint list \<Rightarrow> panic + 'v Constraint" where
  "Intersection cg =
     (case cg of
        [] \<Rightarrow> Inr NoneC
      | [c] \<Rightarrow> Inr c
      | head # tail \<Rightarrow>
          (case first_none_or_version cg of
             Some c \<Rightarrow> Inr c
           | None \<Rightarrow> intersect_tail head tail))"


section \<open>The cross product of two unions, as the specification words it\<close>

text \<open>The results of a list of calls, in order, or the first panic among them.\<close>
fun collect :: "(panic + 'a) list \<Rightarrow> panic + 'a list" where
  "collect [] = Inr []"
| "collect (x # xs) =
     (case x of
        Inl p \<Rightarrow> Inl p
      | Inr y \<Rightarrow> (case collect xs of Inl p \<Rightarrow> Inl p | Inr ys \<Rightarrow> Inr (y # ys)))"

text \<open>"For every pair (member of self, member of other), compute the pairwise
  intersection": the pairs in the order of the two loops.\<close>
definition pairwise_intersections ::
  "'v::linorder Constraint list \<Rightarrow> 'v Constraint list \<Rightarrow> panic + 'v Constraint list" where
  "pairwise_intersections us vs = collect (map (\<lambda>(c, oc). Intersect c oc) (List.product us vs))"

section \<open>Concrete versions and ranges\<close>

text \<open>
  In the examples a version is a pair (major, minor) under the lexicographic order, so
  1.5 is \<open>(1, 5)\<close>. The range literals used there are written with these abbreviations.
\<close>
type_synonym version = "nat \<times> nat"

abbreviation closed :: "version \<Rightarrow> version \<Rightarrow> version rangeConstraint" where
  "closed lo hi \<equiv>
     \<lparr>rc_min = Some lo, rc_max = Some hi, includeMin = True, includeMax = True, excl = []\<rparr>"

abbreviation closed_open :: "version \<Rightarrow> version \<Rightarrow> version rangeConstraint" where
  "closed_open lo hi \<equiv>
     \<lparr>rc_min = Some lo, rc_max = Some hi, includeMin = True, includeMax = False, excl = []\<rparr>"

abbreviation closed_without :: "version \<Rightarrow> version \<Rightarrow> version list \<Rightarrow> version rangeConstraint" where
  "closed_without lo hi ex \<equiv>
     \<lparr>rc_min = Some lo, rc_max = Some hi, includeMin = True, includeMax = True, excl = ex\<rparr>"

abbreviation at_least :: "version \<Rightarrow> version rangeConstraint" where
  "at_least lo \<equiv>
     \<lparr>rc_min = Some lo, rc_max = None, includeMin = True, includeMax = False, excl = []\<rparr>"

section \<open>Comparisons\<close>

lemma Equal_iff: "Equal a b \<longleftrightarrow> a = b"
  by (simp add: Equal_def Compare_def)

lemma LessThan_iff: "LessThan a b \<longleftrightarrow> a < b"
  by (simp add: LessThan_def Compare_def)

lemma GreaterThan_iff: "GreaterThan a b \<longleftrightarrow> b < a"
  by (auto simp add: GreaterThan_def Compare_def)

lemmas range_eval =
  rc_Intersect_rc_def validate_def merged_def merge_min_def merge_max_def dup_def
  Equal_iff LessThan_iff GreaterThan_iff

section \<open>Admission by a range\<close>

lemma admits_excl_eq:
  "admits_excl es v =
     (if v \<in> set es then Some (Errorf ''Version %s is specifically disallowed.'' [v]) else None)"
  by (induction es) (auto simp: Equal_iff)

lemma admits_min_eq:
  "admits_min rc v =
    (case rc_min rc of
       None \<Rightarrow> None
     | Some m \<Rightarrow>
        if includeMin rc then (if v < m then Some (Errorf ''%s is less than %s'' [v, m]) else None)
        else (if v \<le> m then Some (Errorf ''%s is less than or equal to %s'' [v, m]) else None))"
  by (auto simp: admits_min_def Compare_def split: option.splits)

lemma admits_max_eq:
  "admits_max rc v =
    (case rc_max rc of
       None \<Rightarrow> None
     | Some m \<Rightarrow>
        if includeMax rc then (if m < v then Some (Errorf ''%s is greater than %s'' [v, m]) else None)
        else (if m \<le> v then Some (Errorf ''%s is greater than or equal to %s'' [v, m]) else None))"
  by (auto simp: admits_max_def Compare_def split: option.splits)

lemmas admits_eval = rc_Admits_def admits_min_eq admits_max_eq

text \<open>
  C8. A range rejects \<open>v\<close> exactly when a present lower bound is violated (\<open>v\<close> below it,
  or equal to it when the bound is exclusive), or a present upper bound is violated, or
  \<open>v\<close> is one of the excluded versions. The error returned carries the version together
  with the violated bound, or the excluded version alone.
\<close>
theorem rc_Admits_fails_iff:
  "(Admits (RangeC rc) v \<noteq> None \<longleftrightarrow>
      (\<exists>m. rc_min rc = Some m \<and> (if includeMin rc then v < m else v \<le> m)) \<or>
      (\<exists>m. rc_max rc = Some m \<and> (if includeMax rc then m < v else m \<le> v)) \<or>
      v \<in> set (excl rc))
   \<and>
   (Admits (RangeC rc) v = Some e \<longrightarrow>
      (\<exists>m. rc_min rc = Some m \<and> (if includeMin rc then v < m else v \<le> m) \<and>
           e = Errorf (if includeMin rc then ''%s is less than %s''
                       else ''%s is less than or equal to %s'') [v, m]) \<or>
      (\<exists>m. rc_max rc = Some m \<and> (if includeMax rc then m < v else m \<le> v) \<and>
           e = Errorf (if includeMax rc then ''%s is greater than %s''
                       else ''%s is greater than or equal to %s'') [v, m]) \<or>
      (v \<in> set (excl rc) \<and> e = Errorf ''Version %s is specifically disallowed.'' [v]))"
proof (intro conjI impI)
  show "Admits (RangeC rc) v \<noteq> None \<longleftrightarrow>
      (\<exists>m. rc_min rc = Some m \<and> (if includeMin rc then v < m else v \<le> m)) \<or>
      (\<exists>m. rc_max rc = Some m \<and> (if includeMax rc then m < v else m \<le> v)) \<or>
      v \<in> set (excl rc)"
    by (auto simp: admits_eval admits_excl_eq split: option.splits if_splits)
next
  assume "Admits (RangeC rc) v = Some e"
  then show "(\<exists>m. rc_min rc = Some m \<and> (if includeMin rc then v < m else v \<le> m) \<and>
           e = Errorf (if includeMin rc then ''%s is less than %s''
                       else ''%s is less than or equal to %s'') [v, m]) \<or>
      (\<exists>m. rc_max rc = Some m \<and> (if includeMax rc then m < v else m \<le> v) \<and>
           e = Errorf (if includeMax rc then ''%s is greater than %s''
                       else ''%s is greater than or equal to %s'') [v, m]) \<or>
      (v \<in> set (excl rc) \<and> e = Errorf ''Version %s is specifically disallowed.'' [v])"
    by (auto simp: admits_eval admits_excl_eq split: option.splits if_splits)
qed

text \<open>The range from 1.0 inclusive to 2.0 exclusive rejects 2.0 at its upper bound and
  admits 1.2.\<close>
theorem rc_Admits_fails_iff_witness:
  "Admits (RangeC (closed_open (1, 0) (2, 0))) (2, 0)
     = Some (Errorf ''%s is greater than or equal to %s'' [(2, 0), (2, 0)])
   \<and> Admits (RangeC (closed_open (1, 0) (2, 0))) (1, 2) = None"
  using
    rc_Admits_fails_iff [of "closed_open (1, 0) (2, 0)" "(2, 0)"
      "Errorf ''%s is greater than or equal to %s'' [(2, 0), (2, 0)]"]
    rc_Admits_fails_iff [of "closed_open (1, 0) (2, 0)" "(1, 2)"]
  by (simp add: admits_eval)

section \<open>Intersection of two ranges\<close>

lemma validate_both:
  assumes "rc_min nr = Some lo" "rc_max nr = Some hi"
  shows "validate nr =
    (if lo = hi then (if includeMin nr \<and> includeMax nr then Inr (VersionC lo) else Inr NoneC)
     else if hi < lo then Inr NoneC else Inr (RangeC nr))"
  using assms by (simp add: validate_def Equal_iff GreaterThan_iff)

lemma validate_panics:
  "validate nr = Inl p \<longleftrightarrow> p = NilDereference \<and> (rc_min nr = None) \<noteq> (rc_max nr = None)"
  by (cases "rc_min nr"; cases "rc_max nr") (auto simp: validate_def)

lemma validate_range: "validate nr = Inr (RangeC r) \<Longrightarrow> r = nr"
  by (cases "rc_min nr"; cases "rc_max nr") (auto simp: validate_def split: if_splits)

lemma merged_min_None: "rc_min (merged a b) = None \<longleftrightarrow> rc_min a = None \<and> rc_min b = None"
  by (auto simp: merged_def merge_min_def merge_max_def dup_def split: option.splits)

lemma merged_max_None: "rc_max (merged a b) = None \<longleftrightarrow> rc_max a = None \<and> rc_max b = None"
  by (auto simp: merged_def merge_min_def merge_max_def dup_def split: option.splits)

lemma merged_excl: "excl (merged a b) = excl a"
  by (auto simp: merged_def merge_min_def merge_max_def dup_def split: option.splits)

lemma rc_Intersect_both:
  assumes "rc_min (merged a b) = Some lo" "rc_max (merged a b) = Some hi"
  shows "Intersect (RangeC a) (RangeC b) =
    (if lo = hi
     then (if includeMin (merged a b) \<and> includeMax (merged a b) then Inr (VersionC lo) else Inr NoneC)
     else if hi < lo then Inr NoneC else Inr (RangeC (merged a b)))"
  using assms by (simp add: rc_Intersect_rc_def validate_both)

text \<open>
  C7. When the merged range has both bounds: if they are equal the intersection is the
  exact constraint at that version when both merged bounds are inclusive and the empty
  constraint otherwise; if the lower bound is above the upper bound it is the empty
  constraint. The inclusive ranges 1.0 to 2.0 and 2.0 to 3.0 intersect in exactly 2.0;
  with 2.0 excluded as the upper bound of the first, the intersection is empty.
\<close>
theorem rc_Intersect_collapse:
  "(rc_min (merged a b) = Some lo \<and> rc_max (merged a b) = Some hi \<longrightarrow>
      (lo = hi \<longrightarrow> Intersect (RangeC a) (RangeC b) =
          (if includeMin (merged a b) \<and> includeMax (merged a b)
           then Inr (VersionC lo) else Inr NoneC)) \<and>
      (hi < lo \<longrightarrow> Intersect (RangeC a) (RangeC b) = Inr NoneC))
   \<and> Intersect (RangeC (closed (1, 0) (2, 0))) (RangeC (closed (2, 0) (3, 0)))
       = Inr (VersionC (2, 0))
   \<and> Intersect (RangeC (closed_open (1, 0) (2, 0))) (RangeC (closed (2, 0) (3, 0)))
       = Inr NoneC"
proof (intro conjI)
  show "rc_min (merged a b) = Some lo \<and> rc_max (merged a b) = Some hi \<longrightarrow>
      (lo = hi \<longrightarrow> Intersect (RangeC a) (RangeC b) =
          (if includeMin (merged a b) \<and> includeMax (merged a b)
           then Inr (VersionC lo) else Inr NoneC)) \<and>
      (hi < lo \<longrightarrow> Intersect (RangeC a) (RangeC b) = Inr NoneC)"
    by (simp add: rc_Intersect_both del: Intersect.simps)
next
  show "Intersect (RangeC (closed (1, 0) (2, 0))) (RangeC (closed (2, 0) (3, 0)))
       = Inr (VersionC (2, 0))"
    by (simp add: range_eval)
next
  show "Intersect (RangeC (closed_open (1, 0) (2, 0))) (RangeC (closed (2, 0) (3, 0)))
       = Inr NoneC"
    by (simp add: range_eval)
qed

text \<open>The inclusive ranges 1.0 to 2.0 and 3.0 to 4.0 merge to the bounds 3.0 and 2.0,
  and their intersection is empty.\<close>
theorem rc_Intersect_collapse_witness:
  "rc_min (merged (closed (1, 0) (2, 0)) (closed (3, 0) (4, 0))) = Some (3, 0)
   \<and> rc_max (merged (closed (1, 0) (2, 0)) (closed (3, 0) (4, 0))) = Some (2, 0)
   \<and> Intersect (RangeC (closed (1, 0) (2, 0))) (RangeC (closed (3, 0) (4, 0))) = Inr NoneC"
proof -
  have m: "rc_min (merged (closed (1, 0) (2, 0)) (closed (3, 0) (4, 0))) = Some (3, 0)
      \<and> rc_max (merged (closed (1, 0) (2, 0)) (closed (3, 0) (4, 0))) = Some (2, 0)"
    by (simp add: range_eval)
  have lt: "((2, 0) :: version) < (3, 0)"
    by simp
  from m lt rc_Intersect_collapse [of "closed (1, 0) (2, 0)" "closed (3, 0) (4, 0)" "(3, 0)" "(2, 0)"]
  have "Intersect (RangeC (closed (1, 0) (2, 0))) (RangeC (closed (3, 0) (4, 0))) = Inr NoneC"
    by blast
  with m show ?thesis by blast
qed

text \<open>
  C10. Intersecting two ranges dereferences an absent bound exactly when the merged range
  has one bound and lacks the other, that is when both operands lack the same bound and
  at least one of them has the other bound.
\<close>
theorem rc_Intersect_nil_dereference:
  "Intersect (RangeC a) (RangeC b) = Inl NilDereference \<longleftrightarrow>
     (rc_min a = None \<and> rc_min b = None) \<noteq> (rc_max a = None \<and> rc_max b = None)"
  by (simp add: rc_Intersect_rc_def validate_panics merged_min_None merged_max_None)

text \<open>Two ranges with a lower bound each (1.0 and 2.0) and no upper bound.\<close>
theorem rc_Intersect_nil_dereference_witness:
  "Intersect (RangeC (at_least (1, 0))) (RangeC (at_least (2, 0))) = Inl NilDereference"
  using rc_Intersect_nil_dereference [of "at_least (1, 0)" "at_least (2, 0)"]
  by simp

text \<open>
  C1. The range returned by the intersection of two ranges carries the exclusion list of
  the receiver alone; the exclusions of the argument are not read.
\<close>
theorem rc_Intersect_excl_of_receiver:
  "Intersect (RangeC a) (RangeC b) = Inr (RangeC r) \<longrightarrow> excl r = excl a"
  by (auto simp: rc_Intersect_rc_def merged_excl dest: validate_range)

text \<open>The range 1.0 to 5.0 without 2.0, intersected with the same range without 3.0,
  is the first operand again: it rejects 2.0 and admits 3.0 and 4.0.\<close>
theorem rc_Intersect_excl_of_receiver_witness:
  "Intersect (RangeC (closed_without (1, 0) (5, 0) [(2, 0)]))
             (RangeC (closed_without (1, 0) (5, 0) [(3, 0)]))
     = Inr (RangeC (closed_without (1, 0) (5, 0) [(2, 0)]))
   \<and> Admits (RangeC (closed_without (1, 0) (5, 0) [(2, 0)])) (2, 0)
       = Some (Errorf ''Version %s is specifically disallowed.'' [(2, 0)])
   \<and> Admits (RangeC (closed_without (1, 0) (5, 0) [(2, 0)])) (3, 0) = None
   \<and> Admits (RangeC (closed_without (1, 0) (5, 0) [(2, 0)])) (4, 0) = None"
  using rc_Intersect_excl_of_receiver [of "closed_without (1, 0) (5, 0) [(2, 0)]"
      "closed_without (1, 0) (5, 0) [(3, 0)]" "closed_without (1, 0) (5, 0) [(2, 0)]"]
  by (simp add: range_eval admits_eval)

text \<open>
  C2. The intersection of a range with an exact version is the empty constraint, whether
  or not the range admits the version.
\<close>
theorem rc_Intersect_Version:
  "Intersect (RangeC rc) (VersionC v) = Inr NoneC"
  by simp

text \<open>The inclusive range 1.0 to 2.0 admits 1.5, and its intersection with 1.5 is
  empty.\<close>
theorem rc_Intersect_Version_witness:
  "Admits (RangeC (closed (1, 0) (2, 0))) (1, 5) = None
   \<and> Intersect (RangeC (closed (1, 0) (2, 0))) (VersionC (1, 5)) = Inr NoneC"
  using rc_Intersect_Version [of "closed (1, 0) (2, 0)" "(1, 5)"]
  by (simp add: admits_eval)

text \<open>
  C5. Intersecting two ranges in the two orders gives constraints that disagree on a
  version: with A the range 1.0 to 5.0 without 2.0 and B the same range without 3.0,
  the intersection of A with B is A, which admits 3.0, and the intersection of B with A
  is B, which rejects 3.0.
\<close>
theorem Intersect_order_matters:
  "Intersect (RangeC (closed_without (1, 0) (5, 0) [(2, 0)]))
             (RangeC (closed_without (1, 0) (5, 0) [(3, 0)]))
     = Inr (RangeC (closed_without (1, 0) (5, 0) [(2, 0)]))
   \<and> Admits (RangeC (closed_without (1, 0) (5, 0) [(2, 0)])) (3, 0) = None
   \<and> Intersect (RangeC (closed_without (1, 0) (5, 0) [(3, 0)]))
               (RangeC (closed_without (1, 0) (5, 0) [(2, 0)]))
     = Inr (RangeC (closed_without (1, 0) (5, 0) [(3, 0)]))
   \<and> Admits (RangeC (closed_without (1, 0) (5, 0) [(3, 0)])) (3, 0)
       = Some (Errorf ''Version %s is specifically disallowed.'' [(3, 0)])"
  by (simp add: range_eval admits_eval)

section \<open>Admission by a union\<close>

lemma uc_Admits_None:
  "uc_Admits cs v err = None \<longleftrightarrow> (\<exists>c \<in> set cs. Admits c v = None) \<or> (cs = [] \<and> err = None)"
  by (induction cs arbitrary: err) (auto split: option.splits)

text \<open>
  C9. A union returns the nil error exactly when it has no member or one of its members
  admits the version. A union without members returns the nil error for every version.
\<close>
theorem uc_Admits_nil_iff:
  "(Admits (UnionC uc) v = None \<longleftrightarrow> uc = [] \<or> (\<exists>c \<in> set uc. Admits c v = None))
   \<and> Admits (UnionC []) v = None"
  by (auto simp: uc_Admits_None)

section \<open>The predicates\<close>

text \<open>
  C4. \<open>IsAny\<close> gives the answer of \<open>IsNone\<close>: false for the universal constraint and true
  for the empty one.
\<close>
theorem IsAny_is_IsNone:
  "IsAny c = IsNone c \<and> \<not> IsAny (AnyC :: 'v Constraint) \<and> IsAny (NoneC :: 'v Constraint)"
  by (simp add: IsAny_def IsNone_def)

section \<open>The n-ary intersection with the empty and the universal constraint\<close>

text \<open>
  C6. \<open>Intersection\<close> of the empty constraint and \<open>C\<close> is the empty constraint, and
  \<open>Intersection\<close> of the universal constraint and \<open>C\<close> is \<open>C\<close> itself, a constraint that
  admits exactly the versions \<open>C\<close> admits.
\<close>
theorem Intersection_None_Any:
  "Intersection [NoneC, C] = Inr NoneC
   \<and> Intersection [AnyC, C] = Inr C
   \<and> (\<exists>r. Intersection [AnyC, C] = Inr r \<and> (\<forall>v. (Admits r v = None) = (Admits C v = None)))"
  by (cases C) (simp_all add: Intersection_def)

section \<open>Intersection of two unions\<close>

lemma collect_append:
  "collect (xs @ ys) =
     (case collect xs of
        Inl p \<Rightarrow> Inl p
      | Inr as \<Rightarrow> (case collect ys of Inl p \<Rightarrow> Inl p | Inr bs \<Rightarrow> Inr (as @ bs)))"
  by (induction xs) (auto split: sum.splits)

lemma uc_inner_collect:
  "uc_inner c vs newc =
     (case collect (map (Intersect c) vs) of
        Inl p \<Rightarrow> Inl p
      | Inr rs \<Rightarrow> Inr (newc @ filter (\<lambda>i. \<not> IsNone i) rs))"
proof (induction vs arbitrary: newc)
  case Nil
  show ?case by simp
next
  case (Cons oc ocs)
  show ?case
    by (cases "Intersect c oc") (simp_all add: Cons.IH del: Intersect.simps split: sum.splits)
qed

lemma uc_outer_collect:
  "uc_outer us vs newc =
     (case pairwise_intersections us vs of
        Inl p \<Rightarrow> Inl p
      | Inr rs \<Rightarrow> Inr (newc @ filter (\<lambda>i. \<not> IsNone i) rs))"
proof (induction us arbitrary: newc)
  case Nil
  show ?case by (simp add: pairwise_intersections_def)
next
  case (Cons c cs)
  have m: "(\<lambda>(x, y). Intersect x y) \<circ> Pair c = Intersect c"
    by (rule ext) (simp del: Intersect.simps)
  have p: "pairwise_intersections (c # cs) vs =
     (case collect (map (Intersect c) vs) of
        Inl p \<Rightarrow> Inl p
      | Inr as \<Rightarrow>
          (case pairwise_intersections cs vs of Inl p \<Rightarrow> Inl p | Inr bs \<Rightarrow> Inr (as @ bs)))"
    unfolding pairwise_intersections_def
    by (simp add: collect_append m del: Intersect.simps)
  show ?case
  proof (cases "collect (map (Intersect c) vs)")
    case (Inl q)
    then show ?thesis by (simp add: p uc_inner_collect del: Intersect.simps)
  next
    case (Inr as)
    then show ?thesis
      by (cases "pairwise_intersections cs vs")
         (simp_all add: p uc_inner_collect Cons.IH del: Intersect.simps)
  qed
qed

lemma first_any_eq: "first_any cs = (if AnyC \<in> set cs then Some AnyC else None)"
  by (induction cs) (auto split: Constraint.splits)

lemma Union_c_outcomes:
  "Union_c [] = Inr NoneC"
  "Union_c [c] = Inr c"
  "Union_c (c1 # c2 # cs) =
     (if AnyC \<in> set (c1 # c2 # cs) then Inr AnyC else Inl (Panic ''unfinished''))"
  by (simp_all add: Union_c_def first_any_eq)

text \<open>
  C3. The intersection of two unions computes the intersection of every pair (member of
  the receiver, member of the argument), in the order of the loops, drops every empty
  result and hands the survivors to the n-ary \<open>Union\<close>, whose outcome is the outcome of the
  call; a panic of a pairwise intersection ends the call. The n-ary \<open>Union\<close> returns the
  empty constraint for no survivor and the survivor itself for one; for two or more it
  returns the universal constraint when one of them is universal and panics with
  "unfinished" otherwise.
\<close>
theorem uc_Intersect_cross_product:
  "Intersect (UnionC us) (UnionC vs) =
     (case pairwise_intersections us vs of
        Inl p \<Rightarrow> Inl p
      | Inr rs \<Rightarrow> Union_c (filter (\<lambda>i. \<not> IsNone i) rs))
   \<and> Union_c [] = Inr (NoneC :: 'v Constraint)
   \<and> Union_c [c] = Inr c
   \<and> Union_c (c1 # c2 # cs) =
       (if AnyC \<in> set (c1 # c2 # cs) then Inr AnyC else Inl (Panic ''unfinished''))"
proof (intro conjI)
  show "Intersect (UnionC us) (UnionC vs) =
     (case pairwise_intersections us vs of
        Inl p \<Rightarrow> Inl p
      | Inr rs \<Rightarrow> Union_c (filter (\<lambda>i. \<not> IsNone i) rs))"
    by (simp add: uc_outer_collect split: sum.splits)
next
  show "Union_c [] = Inr (NoneC :: 'v Constraint)"
    by (rule Union_c_outcomes)
next
  show "Union_c [c] = Inr c"
    by (rule Union_c_outcomes)
next
  show "Union_c (c1 # c2 # cs) =
       (if AnyC \<in> set (c1 # c2 # cs) then Inr AnyC else Inl (Panic ''unfinished''))"
    by (rule Union_c_outcomes)
qed

text \<open>
  The union of 1.0 to 2.0 and 4.0 to 5.0 intersected with the union of 1.5 to 1.8 and
  4.5 to 6.0: the pairs give 1.5 to 1.8, empty, empty and 4.5 to 5.0, and \<open>Union\<close> panics on
  the two survivors. With 7.0 to 8.0 in place of 4.5 to 6.0 one pair survives, and \<open>Union\<close>
  returns it.
\<close>
theorem uc_Intersect_cross_product_witness:
  "pairwise_intersections
       [RangeC (closed (1, 0) (2, 0)), RangeC (closed (4, 0) (5, 0))]
       [RangeC (closed (1, 5) (1, 8)), RangeC (closed (4, 5) (6, 0))]
     = Inr [RangeC (closed (1, 5) (1, 8)), NoneC, NoneC, RangeC (closed (4, 5) (5, 0))]
   \<and> Intersect
       (UnionC [RangeC (closed (1, 0) (2, 0)), RangeC (closed (4, 0) (5, 0))])
       (UnionC [RangeC (closed (1, 5) (1, 8)), RangeC (closed (4, 5) (6, 0))])
     = Inl (Panic ''unfinished'')
   \<and> pairwise_intersections
       [RangeC (closed (1, 0) (2, 0)), RangeC (closed (4, 0) (5, 0))]
       [RangeC (closed (1, 5) (1, 8)), RangeC (closed (7, 0) (8, 0))]
     = Inr [RangeC (closed (1, 5) (1, 8)), NoneC, NoneC, NoneC]
   \<and> Intersect
       (UnionC [RangeC (closed (1, 0) (2, 0)), RangeC (closed (4, 0) (5, 0))])
       (UnionC [RangeC (closed (1, 5) (1, 8)), RangeC (closed (7, 0) (8, 0))])
     = Inr (RangeC (closed (1, 5) (1, 8)))"
proof -
  have p: "pairwise_intersections
       [RangeC (closed (1, 0) (2, 0)), RangeC (closed (4, 0) (5, 0))]
       [RangeC (closed (1, 5) (1, 8)), RangeC (closed (4, 5) (6, 0))]
     = Inr [RangeC (closed (1, 5) (1, 8)), NoneC, NoneC, RangeC (closed (4, 5) (5, 0))]"
    by (simp add: pairwise_intersections_def range_eval)
  have q: "pairwise_intersections
       [RangeC (closed (1, 0) (2, 0)), RangeC (closed (4, 0) (5, 0))]
       [RangeC (closed (1, 5) (1, 8)), RangeC (closed (7, 0) (8, 0))]
     = Inr [RangeC (closed (1, 5) (1, 8)), NoneC, NoneC, NoneC]"
    by (simp add: pairwise_intersections_def range_eval)
  from uc_Intersect_cross_product
    [of "[]" "[]" "AnyC" "RangeC (closed (1, 5) (1, 8))" "RangeC (closed (4, 5) (5, 0))" "[]"]
  have "Union_c [RangeC (closed (1, 5) (1, 8)), RangeC (closed (4, 5) (5, 0))] =
      (if AnyC \<in> set [RangeC (closed (1, 5) (1, 8)), RangeC (closed (4, 5) (5, 0))]
       then Inr AnyC else Inl (Panic ''unfinished''))"
    by blast
  then have u: "Union_c [RangeC (closed (1, 5) (1, 8)), RangeC (closed (4, 5) (5, 0))]
      = Inl (Panic ''unfinished'')"
    by simp
  from uc_Intersect_cross_product
    [of "[]" "[]" "RangeC (closed (1, 5) (1, 8))" "AnyC" "AnyC" "[]"]
  have v: "Union_c [RangeC (closed (1, 5) (1, 8))] = Inr (RangeC (closed (1, 5) (1, 8)))"
    by blast
  from uc_Intersect_cross_product
    [of "[RangeC (closed (1, 0) (2, 0)), RangeC (closed (4, 0) (5, 0))]"
        "[RangeC (closed (1, 5) (1, 8)), RangeC (closed (4, 5) (6, 0))]"]
  have a: "Intersect
       (UnionC [RangeC (closed (1, 0) (2, 0)), RangeC (closed (4, 0) (5, 0))])
       (UnionC [RangeC (closed (1, 5) (1, 8)), RangeC (closed (4, 5) (6, 0))])
     = (case pairwise_intersections
              [RangeC (closed (1, 0) (2, 0)), RangeC (closed (4, 0) (5, 0))]
              [RangeC (closed (1, 5) (1, 8)), RangeC (closed (4, 5) (6, 0))] of
          Inl p \<Rightarrow> Inl p
        | Inr rs \<Rightarrow> Union_c (filter (\<lambda>i. \<not> IsNone i) rs))"
    by blast
  from uc_Intersect_cross_product
    [of "[RangeC (closed (1, 0) (2, 0)), RangeC (closed (4, 0) (5, 0))]"
        "[RangeC (closed (1, 5) (1, 8)), RangeC (closed (7, 0) (8, 0))]"]
  have b: "Intersect
       (UnionC [RangeC (closed (1, 0) (2, 0)), RangeC (closed (4, 0) (5, 0))])
       (UnionC [RangeC (closed (1, 5) (1, 8)), RangeC (closed (7, 0) (8, 0))])
     = (case pairwise_intersections
              [RangeC (closed (1, 0) (2, 0)), RangeC (closed (4, 0) (5, 0))]
              [RangeC (closed (1, 5) (1, 8)), RangeC (closed (7, 0) (8, 0))] of
          Inl p \<Rightarrow> Inl p
        | Inr rs \<Rightarrow> Union_c (filter (\<lambda>i. \<not> IsNone i) rs))"
    by blast
  have a': "Intersect
       (UnionC [RangeC (closed (1, 0) (2, 0)), RangeC (closed (4, 0) (5, 0))])
       (UnionC [RangeC (closed (1, 5) (1, 8)), RangeC (closed (4, 5) (6, 0))])
     = Inl (Panic ''unfinished'')"
    unfolding a p using u by (simp add: IsNone_def)
  have b': "Intersect
       (UnionC [RangeC (closed (1, 0) (2, 0)), RangeC (closed (4, 0) (5, 0))])
       (UnionC [RangeC (closed (1, 5) (1, 8)), RangeC (closed (7, 0) (8, 0))])
     = Inr (RangeC (closed (1, 5) (1, 8)))"
    unfolding b q using v by (simp add: IsNone_def)
  from p q a' b' show ?thesis by blast
qed

end
